theory Spec2Isabelle
  imports Main "HOL-Library.Sublist"
begin

section \<open>Strings\<close>

text \<open>
  A JavaScript string is a finite sequence of UTF-16 code units. A code unit is modelled
  by its number, so every JavaScript string is a \<open>jsstring\<close>; \<open>str\<close> turns an ASCII
  literal into its code units. \<open>String.prototype.includes\<close> is \<^const>\<open>sublist\<close> (a
  contiguous occurrence), \<open>startsWith\<close> is \<^const>\<open>prefix\<close>.
\<close>

type_synonym codeunit = nat
type_synonym jsstring = "codeunit list"

definition str :: "string \<Rightarrow> jsstring" where
  "str s = map of_char s"

text \<open>
  The decimal rendering of a non-negative integer, as a template literal prints a
  number such as an HTTP status.
\<close>

fun digits :: "nat \<Rightarrow> jsstring" where
  "digits n = (if n < 10 then [48 + n] else digits (n div 10) @ [48 + n mod 10])"

section \<open>Error sanitization layer (core/errors.ts)\<close>

subsection \<open>The registry of sensitive strings\<close>

text \<open>
  \<open>SENSITIVE_PATTERNS\<close> is a module-level mutable array that starts empty. The model passes
  it explicitly: \<open>registerSensitivePattern\<close> returns the array after the call.
\<close>

type_synonym registry = "jsstring list"

definition SENSITIVE_PATTERNS :: registry where
  "SENSITIVE_PATTERNS = []"

definition registerSensitivePattern :: "jsstring \<Rightarrow> registry \<Rightarrow> registry" where
  "registerSensitivePattern pattern patterns =
     (if pattern \<noteq> [] \<and> length pattern > 0 then patterns @ [pattern] else patterns)"

text \<open>A sequence of registrations, starting from the empty array.\<close>

definition registerAll :: "jsstring list \<Rightarrow> registry" where
  "registerAll ps = fold registerSensitivePattern ps SENSITIVE_PATTERNS"

subsection \<open>Literal replacement\<close>

text \<open>
  \<open>s.replaceAll(pat, rep)\<close> for a string \<open>pat\<close>: the occurrences of \<open>pat\<close> are found from
  left to right, each search starting where the previous occurrence ended, and each is
  replaced by \<open>rep\<close>. An empty \<open>pat\<close> occurs before every code unit and at the end. The
  replacement texts of this module hold no \<open>$\<close>, so they are inserted as they are.
\<close>

function replaceAll :: "jsstring \<Rightarrow> jsstring \<Rightarrow> jsstring \<Rightarrow> jsstring" where
  "replaceAll [] pat rep = (if pat = [] then rep else [])"
| "replaceAll (c # cs) pat rep =
     (if pat = [] then rep @ c # replaceAll cs pat rep
      else if prefix pat (c # cs) then rep @ replaceAll (drop (length pat) (c # cs)) pat rep
      else c # replaceAll cs pat rep)"
  by pat_completeness auto
termination
  by (relation "measure (\<lambda>(s, pat, rep). length s)") auto

subsection \<open>The two regular expressions\<close>

text \<open>
  \<open>\s\<close> matches the white space and line terminator code units of ECMAScript; \<open>\S\<close> is its
  complement.
\<close>

definition isSpace :: "codeunit \<Rightarrow> bool" where
  "isSpace c =
     (c \<in> {9, 10, 11, 12, 13, 32, 160, 5760, 8232, 8233, 8239, 8287, 12288, 65279}
      \<or> (8192 \<le> c \<and> c \<le> 8202))"

definition nonSpace :: "codeunit \<Rightarrow> bool" where
  "nonSpace c = (\<not> isSpace c)"

text \<open>
  Under the \<open>i\<close> flag (without \<open>u\<close>) two code units match when their canonical forms are
  equal. The literals of both expressions are ASCII, and no code unit outside ASCII has
  an ASCII canonical form, so folding the ASCII letters decides every comparison made here.
\<close>

definition canon :: "codeunit \<Rightarrow> codeunit" where
  "canon c = (if 97 \<le> c \<and> c \<le> 122 then c - 32 else c)"

definition startsWithCI :: "jsstring \<Rightarrow> jsstring \<Rightarrow> bool" where
  "startsWithCI lit s = prefix (map canon lit) (map canon s)"

text \<open>
  A matcher gives the length of the match of an expression anchored at the start of its
  argument, or \<open>None\<close>.

  \<open>/PVEAPIToken=\S+/i\<close>: the literal, then the longest non-empty run of non-space code units.
\<close>

definition matchToken :: "jsstring \<Rightarrow> nat option" where
  "matchToken s =
     (let lit = str ''PVEAPIToken=''; rest = drop (length lit) s; run = takeWhile nonSpace rest in
      if startsWithCI lit s \<and> run \<noteq> [] then Some (length lit + length run) else None)"

text \<open>
  \<open>/authorization:\s*\S+/i\<close>: the literal, the longest run of space code units, then the
  longest non-empty run of non-space code units. Giving back space code units never helps:
  \<open>\S+\<close> cannot start on one.
\<close>

definition matchAuthorization :: "jsstring \<Rightarrow> nat option" where
  "matchAuthorization s =
     (let lit = str ''authorization:''; rest = drop (length lit) s;
          spaces = takeWhile isSpace rest; run = takeWhile nonSpace (dropWhile isSpace rest) in
      if startsWithCI lit s \<and> run \<noteq> [] then Some (length lit + length spaces + length run)
      else None)"

text \<open>
  \<open>s.replace(re, rep)\<close> for a global expression: the leftmost match is replaced and the
  search goes on where it ended; after an empty match it moves one code unit on.
\<close>

function regexReplace :: "(jsstring \<Rightarrow> nat option) \<Rightarrow> jsstring \<Rightarrow> jsstring \<Rightarrow> jsstring" where
  "regexReplace m rep [] = (case m [] of None \<Rightarrow> [] | Some n \<Rightarrow> rep)"
| "regexReplace m rep (c # cs) =
     (case m (c # cs) of
        None \<Rightarrow> c # regexReplace m rep cs
      | Some n \<Rightarrow>
          (if n = 0 then rep @ c # regexReplace m rep cs
           else rep @ regexReplace m rep (drop n (c # cs))))"
  by pat_completeness auto
termination
  by (relation "measure (\<lambda>(m, rep, s). length s)") auto

subsection \<open>sanitizeMessage\<close>

definition REDACTED :: jsstring where
  "REDACTED = str ''[REDACTED]''"

definition TOKEN_REDACTED :: jsstring where
  "TOKEN_REDACTED = str ''PVEAPIToken=[REDACTED]''"

definition AUTHORIZATION_REDACTED :: jsstring where
  "AUTHORIZATION_REDACTED = str ''authorization: [REDACTED]''"

definition sanitizeMessage :: "registry \<Rightarrow> jsstring \<Rightarrow> jsstring" where
  "sanitizeMessage patterns message =
     (let sanitized = fold (\<lambda>pattern sanitized. replaceAll sanitized pattern REDACTED)
                        patterns message;
          sanitized = regexReplace matchToken TOKEN_REDACTED sanitized;
          sanitized = regexReplace matchAuthorization AUTHORIZATION_REDACTED sanitized
      in sanitized)"


section \<open>Values\<close>

text \<open>
  A value parsed from JSON. A number is represented by the text JavaScript prints for it
  (\<open>String(n)\<close>), which is all this program does with a number. An object is the list
  of its entries in the order \<open>Object.entries\<close> gives them, with distinct keys.
\<close>

datatype json =
    JNull
  | JBool bool
  | JNum jsstring
  | JStr jsstring
  | JArr "json list"
  | JObj "(jsstring \<times> json) list"

fun truthy :: "json \<Rightarrow> bool" where
  "truthy JNull = False"
| "truthy (JBool b) = b"
| "truthy (JNum r) = (r \<noteq> str ''0'')"
| "truthy (JStr s) = (s \<noteq> [])"
| "truthy (JArr xs) = True"
| "truthy (JObj kvs) = True"

text \<open>\<open>xs.join(sep)\<close> on strings.\<close>

fun join :: "jsstring \<Rightarrow> jsstring list \<Rightarrow> jsstring" where
  "join sep [] = []"
| "join sep [x] = x"
| "join sep (x # y # ys) = x @ sep @ join sep (y # ys)"

text \<open>The text a template literal prints for a value.\<close>

fun toStringJ :: "json \<Rightarrow> jsstring" where
  "toStringJ JNull = str ''null''"
| "toStringJ (JBool b) = (if b then str ''true'' else str ''false'')"
| "toStringJ (JNum r) = r"
| "toStringJ (JStr s) = s"
| "toStringJ (JArr xs) = join (str '','') (map (\<lambda>x. if x = JNull then [] else toStringJ x) xs)"
| "toStringJ (JObj kvs) = str ''[object Object]''"

text \<open>
  Reading a property that no prototype defines (\<open>data\<close>, \<open>errors\<close>, \<open>version\<close>,
  \<open>release\<close>) of a value other than \<open>null\<close>: \<open>None\<close> is \<open>undefined\<close>. Reading a property
  of \<open>null\<close> throws a TypeError, which the callers below handle before they call this.
\<close>

fun getProp :: "json \<Rightarrow> jsstring \<Rightarrow> json option" where
  "getProp (JObj kvs) k = map_of kvs k"
| "getProp v k = None"

text \<open>\<open>Object.entries\<close> of a value that is not \<open>null\<close>.\<close>

fun entries :: "json \<Rightarrow> (jsstring \<times> json) list" where
  "entries (JObj kvs) = kvs"
| "entries (JArr xs) = zip (map digits [0..<length xs]) xs"
| "entries (JStr s) = zip (map digits [0..<length s]) (map (\<lambda>c. JStr [c]) s)"
| "entries v = []"

text \<open>
  What a \<open>throw\<close> or a rejected promise carries: a \<open>PveError\<close> (message and optional
  status code), another instance of \<open>Error\<close> (its message), or a value that is not an
  instance of \<open>Error\<close> (represented by the text \<open>String(err)\<close> gives).
\<close>

datatype thrown =
    PveError jsstring "nat option"
  | OtherError jsstring
  | NonError jsstring

fun instanceofError :: "thrown \<Rightarrow> bool" where
  "instanceofError (NonError v) = False"
| "instanceofError e = True"

fun instanceofPveError :: "thrown \<Rightarrow> bool" where
  "instanceofPveError (PveError m c) = True"
| "instanceofPveError e = False"

fun message :: "thrown \<Rightarrow> jsstring" where
  "message (PveError m c) = m"
| "message (OtherError m) = m"
| "message (NonError v) = v"

text \<open>The message of the TypeError that reading property \<open>p\<close> of \<open>null\<close> throws (V8).\<close>

definition nullReadMessage :: "jsstring \<Rightarrow> jsstring" where
  "nullReadMessage p = str ''Cannot read properties of null (reading '' @ [39] @ p @ [39] @ str '')''"

section \<open>Configuration (types/index.ts)\<close>

datatype AccessTier = ReadOnly | ReadExecute | Full

record AppConfig =
  baseUrl :: jsstring
  tokenId :: jsstring
  tokenSecret :: jsstring
  accessTier :: AccessTier
  categories :: "jsstring list option"
  verifySsl :: bool
  debug :: bool

section \<open>Tool registration (core/tools.ts)\<close>

fun TIER_LEVELS :: "AccessTier \<Rightarrow> nat" where
  "TIER_LEVELS ReadOnly = 0"
| "TIER_LEVELS ReadExecute = 1"
| "TIER_LEVELS Full = 2"

text \<open>
  A tool's input schema is opaque here. Annotations are an object of hints (key to
  value); the arguments of a call are an object too. A handler returns a string or throws;
  it is a function of the arguments, with whatever it reads from the backend fixed.
\<close>

typedecl ZodRawShape

type_synonym ToolAnnotations = "jsstring \<rightharpoonup> json"

type_synonym args = "(jsstring \<times> json) list"

record ToolRegistrationOptions =
  name :: jsstring
  description :: jsstring
  accessTier_tool :: AccessTier
  category :: jsstring
  annotations :: "ToolAnnotations option"
  inputSchema :: "ZodRawShape option"
  handler :: "args \<Rightarrow> thrown + jsstring"

text \<open>
  The result of a call: text items, and the \<open>isError\<close> key, which a successful result does
  not have (\<open>None\<close>).
\<close>

datatype content_item = TextContent jsstring

record CallToolResult =
  content :: "content_item list"
  isError :: "bool option"

text \<open>
  The callback that \<open>registerTool\<close> hands to the server. It reads the registry of sensitive
  strings when it is called. Its result type leaves room for a throw (\<open>Inl\<close>), which no
  branch produces.
\<close>

definition wrappedHandler ::
  "ToolRegistrationOptions \<Rightarrow> registry \<Rightarrow> args \<Rightarrow> thrown + CallToolResult" where
  "wrappedHandler options patterns a =
     (case handler options a of
        Inr result \<Rightarrow> Inr \<lparr>content = [TextContent result], isError = None\<rparr>
      | Inl err \<Rightarrow>
          Inr \<lparr>content =
                 [TextContent
                    (if instanceofError err then sanitizeMessage patterns (message err)
                     else str ''An unknown error occurred'')],
               isError = Some True\<rparr>)"

text \<open>
  The server is the SDK's: the model keeps the table of what was registered with it, in
  order.
\<close>

record ToolConfig =
  config_description :: jsstring
  config_inputSchema :: "ZodRawShape option"
  config_annotations :: ToolAnnotations

record RegisteredTool =
  tool_name :: jsstring
  tool_config :: ToolConfig
  tool_callback :: "registry \<Rightarrow> args \<Rightarrow> thrown + CallToolResult"

type_synonym McpServer = "RegisteredTool list"

definition registerTool ::
  "McpServer \<Rightarrow> AppConfig \<Rightarrow> ToolRegistrationOptions \<Rightarrow> bool \<times> McpServer" where
  "registerTool server config options =
     (if TIER_LEVELS (accessTier config) < TIER_LEVELS (accessTier_tool options)
      then (False, server)
      else if (case categories config of
                 None \<Rightarrow> False
               | Some cs \<Rightarrow> category options \<notin> set cs)
      then (False, server)
      else
        let hints =
              [str ''readOnlyHint'' \<mapsto> JBool (accessTier_tool options = ReadOnly),
               str ''destructiveHint'' \<mapsto> JBool False]
              ++ (case annotations options of None \<Rightarrow> Map.empty | Some a \<Rightarrow> a);
            toolConfig =
              \<lparr>config_description = description options,
               config_inputSchema = inputSchema options,
               config_annotations = hints\<rparr>
        in (True,
            server @
              [\<lparr>tool_name = name options, tool_config = toolConfig,
                tool_callback = wrappedHandler options\<rparr>]))"

section \<open>HTTP client (core/client.ts)\<close>

definition REQUEST_TIMEOUT_MS :: nat where
  "REQUEST_TIMEOUT_MS = 30000"

record PveClient =
  authHeader :: jsstring
  apiBase :: jsstring
  client_baseUrl :: jsstring

definition newPveClient :: "AppConfig \<Rightarrow> PveClient" where
  "newPveClient config =
     \<lparr>authHeader = str ''PVEAPIToken='' @ tokenId config @ str ''='' @ tokenSecret config,
      apiBase = baseUrl config @ str ''/api2/json'',
      client_baseUrl = baseUrl config\<rparr>"

text \<open>
  What \<open>fetch\<close> is called with, and what comes back. The backend and the network are the
  environment: a function from the call to its outcome. \<open>fetch\<close> rejects with a
  \<open>TimeoutError\<close> DOMException when the signal of \<open>AbortSignal.timeout\<close> fires, and with a
  TypeError when the network fails; both are instances of \<open>Error\<close>, and the outcome carries
  the message. A response gives its status line, its \<open>content-type\<close> header, and what
  reading its body as JSON and as text gives (a value, or a throw).
\<close>

record response =
  status :: nat
  statusText :: jsstring
  contentType :: "jsstring option"
  bodyJson :: "thrown + json"
  bodyText :: "thrown + jsstring"

definition ok :: "response \<Rightarrow> bool" where
  "ok r = (200 \<le> status r \<and> status r \<le> 299)"

record fetch_call =
  url :: jsstring
  http_method :: jsstring
  headers :: "(jsstring \<times> jsstring) list"
  http_body :: "json option"
  signal_timeout :: nat

datatype fetch_result =
    Responds response
  | TimesOut jsstring
  | NetworkFails jsstring

type_synonym backend = "fetch_call \<Rightarrow> fetch_result"

text \<open>The detail of a failed call: the status line, and the error body's entries if any.\<close>

definition errorDetail :: "response \<Rightarrow> jsstring" where
  "errorDetail r =
     (let detail = digits (status r) @ str '' '' @ statusText r in
      case bodyJson r of
        Inl e \<Rightarrow> detail
      | Inr errBody \<Rightarrow>
          (case errBody of
             JNull \<Rightarrow> detail
           | _ \<Rightarrow>
               (case getProp errBody (str ''errors'') of
                  None \<Rightarrow> detail
                | Some errors \<Rightarrow>
                    if truthy errors
                    then detail @ [32, 8212, 32] @
                         join (str '', '')
                           (map (\<lambda>(k, v). k @ str '': '' @ toStringJ v) (entries errors))
                    else detail)))"

text \<open>The \<open>catch\<close> of \<open>request\<close>: a \<open>PveError\<close> passes, anything else is wrapped.\<close>

definition requestCatch :: "registry \<Rightarrow> thrown \<Rightarrow> thrown" where
  "requestCatch patterns err =
     (if instanceofPveError err then err
      else PveError (sanitizeMessage patterns (message err)) None)"

text \<open>What \<open>request\<close> passes to \<open>fetch\<close>.\<close>

definition requestInit :: "PveClient \<Rightarrow> jsstring \<Rightarrow> jsstring \<Rightarrow> json option \<Rightarrow> fetch_call" where
  "requestInit client method path body =
     \<lparr>url = apiBase client @ path,
      http_method = method,
      headers =
        [(str ''Authorization'', authHeader client)] @
        (if body \<noteq> None then [(str ''Content-Type'', str ''application/json'')] else []),
      http_body = body,
      signal_timeout = REQUEST_TIMEOUT_MS\<rparr>"

definition request ::
  "PveClient \<Rightarrow> registry \<Rightarrow> backend \<Rightarrow> jsstring \<Rightarrow> jsstring \<Rightarrow> json option \<Rightarrow> thrown + json" where
  "request client patterns fetch method path body =
     (case fetch (requestInit client method path body) of
        TimesOut m \<Rightarrow> Inl (requestCatch patterns (OtherError m))
      | NetworkFails m \<Rightarrow> Inl (requestCatch patterns (OtherError m))
      | Responds r \<Rightarrow>
          if \<not> ok r
          then Inl (requestCatch patterns
                 (PveError
                    (sanitizeMessage patterns
                       (method @ str '' '' @ path @ str '' failed: '' @ errorDetail r))
                    (Some (status r))))
          else
            let ct = (case contentType r of None \<Rightarrow> [] | Some h \<Rightarrow> h) in
            if \<not> sublist (str ''json'') ct
            then (case bodyText r of
                    Inl e \<Rightarrow> Inl (requestCatch patterns e)
                  | Inr t \<Rightarrow> Inr (if t = [] then JNull else JStr t))
            else (case bodyJson r of
                    Inl e \<Rightarrow> Inl (requestCatch patterns e)
                  | Inr json \<Rightarrow>
                      (case json of
                         JNull \<Rightarrow>
                           Inl (requestCatch patterns
                                  (OtherError (nullReadMessage (str ''data''))))
                       | _ \<Rightarrow>
                           (case getProp json (str ''data'') of
                              Some d \<Rightarrow> Inr d
                            | None \<Rightarrow> Inr json))))"

definition get :: "PveClient \<Rightarrow> registry \<Rightarrow> backend \<Rightarrow> jsstring \<Rightarrow> thrown + json" where
  "get client patterns fetch path = request client patterns fetch (str ''GET'') path None"

definition post ::
  "PveClient \<Rightarrow> registry \<Rightarrow> backend \<Rightarrow> jsstring \<Rightarrow> json option \<Rightarrow> thrown + json" where
  "post client patterns fetch path body = request client patterns fetch (str ''POST'') path body"

definition put ::
  "PveClient \<Rightarrow> registry \<Rightarrow> backend \<Rightarrow> jsstring \<Rightarrow> json option \<Rightarrow> thrown + json" where
  "put client patterns fetch path body = request client patterns fetch (str ''PUT'') path body"

definition delete :: "PveClient \<Rightarrow> registry \<Rightarrow> backend \<Rightarrow> jsstring \<Rightarrow> thrown + json" where
  "delete client patterns fetch path = request client patterns fetch (str ''DELETE'') path None"

text \<open>
  \<open>PveClient.validateConnection\<close>: one GET of the version endpoint. \<open>Inr\<close> holds the line
  it logs at level info. \<open>d?.p\<close> is \<open>undefined\<close> when \<open>d\<close> is \<open>undefined\<close> or \<open>null\<close>, and
  \<open>x ?? y\<close> is \<open>y\<close> in the same two cases.
\<close>

definition validateInit :: "PveClient \<Rightarrow> fetch_call" where
  "validateInit client =
     \<lparr>url = apiBase client @ str ''/version'',
      http_method = str ''GET'',
      headers = [(str ''Authorization'', authHeader client)],
      http_body = None,
      signal_timeout = REQUEST_TIMEOUT_MS\<rparr>"

fun optProp :: "json option \<Rightarrow> jsstring \<Rightarrow> json option" where
  "optProp None k = None"
| "optProp (Some JNull) k = None"
| "optProp (Some v) k = getProp v k"

fun nullish :: "json option \<Rightarrow> json \<Rightarrow> json" where
  "nullish None d = d"
| "nullish (Some JNull) d = d"
| "nullish (Some v) d = v"

definition validateCatch :: "PveClient \<Rightarrow> registry \<Rightarrow> thrown \<Rightarrow> thrown" where
  "validateCatch client patterns err =
     (if instanceofPveError err then err
      else PveError
             (sanitizeMessage patterns
                (str ''Cannot connect to Proxmox VE at '' @ client_baseUrl client @ str '': '' @
                 message err))
             None)"

definition PveClient_validateConnection ::
  "PveClient \<Rightarrow> registry \<Rightarrow> backend \<Rightarrow> thrown + jsstring" where
  "PveClient_validateConnection client patterns fetch =
     (case fetch (validateInit client) of
        TimesOut m \<Rightarrow> Inl (validateCatch client patterns (OtherError m))
      | NetworkFails m \<Rightarrow> Inl (validateCatch client patterns (OtherError m))
      | Responds r \<Rightarrow>
          if status r = 401 \<or> status r = 403
          then Inl (validateCatch client patterns
                 (PveError
                    (str ''Authentication failed -- check PVE_TOKEN_ID and PVE_TOKEN_SECRET'')
                    (Some (status r))))
          else if \<not> ok r
          then Inl (validateCatch client patterns
                 (PveError
                    (str ''Connection check failed: '' @ digits (status r) @ str '' '' @
                     statusText r)
                    (Some (status r))))
          else (case bodyJson r of
                  Inl e \<Rightarrow> Inl (validateCatch client patterns e)
                | Inr json \<Rightarrow>
                    (case json of
                       JNull \<Rightarrow>
                         Inl (validateCatch client patterns
                                (OtherError (nullReadMessage (str ''data''))))
                     | _ \<Rightarrow>
                         let version =
                               nullish (optProp (getProp json (str ''data'')) (str ''version''))
                                 (JStr (str ''unknown''));
                             release =
                               nullish (optProp (getProp json (str ''data'')) (str ''release''))
                                 (JStr [])
                         in Inr (str ''Connected to Proxmox VE at '' @ client_baseUrl client @
                                 str '' (version: '' @ toStringJ version @
                                 (if truthy release then str '', release: '' @ toStringJ release
                                  else []) @
                                 str '')''))))"

text \<open>
  \<open>createClient\<close> registers the credentials, then builds the client. The startup check
  \<open>validateConnection\<close> either lets the process go on or ends it: the outcome holds the
  exit code and the lines logged at level error.
\<close>

definition createClient :: "AppConfig \<Rightarrow> registry \<Rightarrow> PveClient \<times> registry" where
  "createClient config patterns =
     (newPveClient config,
      registerSensitivePattern (tokenSecret config)
        (registerSensitivePattern (tokenId config) patterns))"

datatype startup = Proceeds | Exits nat "jsstring list"

definition validateConnection :: "PveClient \<Rightarrow> registry \<Rightarrow> backend \<Rightarrow> startup" where
  "validateConnection client patterns fetch =
     (case PveClient_validateConnection client patterns fetch of
        Inr line \<Rightarrow> Proceeds
      | Inl error \<Rightarrow>
          Exits 1
            ([str ''Failed to connect to Proxmox VE.'',
              str ''Check that PVE_BASE_URL is correct and the PVE host is reachable.''] @
             (if instanceofError error
              then [str ''Details: '' @ sanitizeMessage patterns (message error)]
              else [])))"

section \<open>Strings that cannot meet a replacement text\<close>

text \<open>
  \<open>overlaps s r\<close>: an occurrence of \<open>s\<close> in a text can share a position with an occurrence
  of \<open>r\<close> there. Either \<open>s\<close> lies inside \<open>r\<close>, or \<open>s\<close> starts inside \<open>r\<close> and runs past its
  end, or \<open>s\<close> starts before \<open>r\<close> and ends inside it or runs over it. A string is
  \<open>markerFree\<close> when it overlaps none of the three texts \<open>sanitizeMessage\<close> inserts.
\<close>

definition overlaps :: "jsstring \<Rightarrow> jsstring \<Rightarrow> bool" where
  "overlaps s r =
     (sublist s r
      \<or> (\<exists>p \<in> set (prefixes s). p \<noteq> [] \<and> suffix p r)
      \<or> (\<exists>q \<in> set (suffixes s). q \<noteq> [] \<and> (prefix q r \<or> prefix r q)))"

definition markerFree :: "jsstring \<Rightarrow> bool" where
  "markerFree s =
     (\<not> overlaps s REDACTED \<and> \<not> overlaps s TOKEN_REDACTED \<and> \<not> overlaps s AUTHORIZATION_REDACTED)"

section \<open>The admission rule in the specification's words\<close>


text \<open>
  The specification asks that a 401 or 403 failure mentions authentication: the word
  occurs in the message, in any letter case.
\<close>

definition mentionsAuthentication :: "jsstring \<Rightarrow> bool" where
  "mentionsAuthentication m = sublist (map canon (str ''authentication'')) (map canon m)"

section \<open>Example inputs\<close>

definition exampleConfig :: AppConfig where
  "exampleConfig =
     \<lparr>baseUrl = str ''https://pve:8006'', tokenId = str ''root@pam!mcp'',
      tokenSecret = str ''s3cr3t'', accessTier = Full, categories = Some [str ''storage''],
      verifySsl = True, debug = False\<rparr>"

definition exampleTool :: "(args \<Rightarrow> thrown + jsstring) \<Rightarrow> ToolRegistrationOptions" where
  "exampleTool h =
     \<lparr>name = str ''pve_list_storage'', description = str ''List storage'',
      accessTier_tool = ReadOnly, category = str ''storage'', annotations = None,
      inputSchema = None, handler = h\<rparr>"

definition exampleClient :: PveClient where
  "exampleClient = newPveClient exampleConfig"

definition forbidden :: response where
  "forbidden =
     \<lparr>status = 403, statusText = str ''Forbidden'', contentType = Some (str ''text/html''),
      bodyJson = Inl (OtherError (str ''Unexpected token'')), bodyText = Inr (str ''denied'')\<rparr>"

definition jsonResponse :: "json \<Rightarrow> response" where
  "jsonResponse v =
     \<lparr>status = 200, statusText = str ''OK'', contentType = Some (str ''application/json''),
      bodyJson = Inr v, bodyText = Inr []\<rparr>"

section \<open>Evaluation\<close>

declare digits.simps [simp del]

lemmas string_eval = str_def REDACTED_def TOKEN_REDACTED_def AUTHORIZATION_REDACTED_def
  matchToken_def matchAuthorization_def startsWithCI_def canon_def nonSpace_def isSpace_def
  sanitizeMessage_def Let_def sublist_code(3)

section \<open>What sanitizeMessage removes\<close>

lemma sublist_app_left: "sublist s a \<Longrightarrow> sublist s (a @ b)"
  by (simp add: sublist_append)

lemma sublist_app_right: "sublist s b \<Longrightarrow> sublist s (a @ b)"
  by (simp add: sublist_append)

lemma sublist_drop_app: "sublist s (drop n t) \<Longrightarrow> sublist s t"
  using sublist_drop sublist_order.order_trans by blast

lemma overlaps_nonempty: "\<not> overlaps s r \<Longrightarrow> s \<noteq> []"
  by (auto simp: overlaps_def)

lemma overlaps_split:
  assumes "\<not> overlaps s r" and "sublist s (u @ r @ v)"
  shows "sublist s u \<or> sublist s v"
proof -
  from assms(2) consider "sublist s u" | "sublist s (r @ v)"
    | s1 s2 where "s = s1 @ s2" "suffix s1 u" "prefix s2 (r @ v)"
    unfolding sublist_append [of s u] by blast
  then show ?thesis
  proof cases
    case 1
    then show ?thesis by simp
  next
    case 2
    then consider "sublist s r" | "sublist s v"
      | s1 s2 where "s = s1 @ s2" "suffix s1 r" "prefix s2 v"
      unfolding sublist_append [of s r] by blast
    then show ?thesis
    proof cases
      case 1
      with assms(1) show ?thesis by (simp add: overlaps_def)
    next
      case 2
      then show ?thesis by simp
    next
      case 3
      show ?thesis
      proof (cases "s1 = []")
        case True
        with 3 show ?thesis by simp
      next
        case False
        have "prefix s1 s" using 3(1) by simp
        with False 3(2) assms(1) show ?thesis unfolding overlaps_def by auto
      qed
    qed
  next
    case 3
    show ?thesis
    proof (cases "s2 = []")
      case True
      with 3 show ?thesis by simp
    next
      case False
      have a: "suffix s2 s" using 3(1) by (simp add: suffix_def)
      have b: "prefix s2 r \<or> prefix r s2"
        using 3(3) unfolding prefix_append by (auto simp: prefix_def)
      from a b False assms(1) show ?thesis unfolding overlaps_def by auto
    qed
  qed
qed

lemma replaceAll_keeps_absent:
  "\<not> overlaps s rep \<Longrightarrow> \<not> sublist s (pre @ t) \<Longrightarrow> \<not> sublist s (pre @ replaceAll t pat rep)"
proof (induction t pat rep arbitrary: pre rule: replaceAll.induct)
  case (1 pat rep)
  have npre: "\<not> sublist s pre" using 1(2) by simp
  show ?case
  proof (cases "pat = []")
    case True
    have "\<not> sublist s (pre @ rep @ [])"
      using overlaps_split [OF 1(1), of pre "[]"] npre overlaps_nonempty [OF 1(1)] by auto
    with True show ?thesis by simp
  next
    case False
    with 1 show ?thesis by simp
  qed
next
  case (2 c cs pat rep)
  have npre: "\<not> sublist s pre" using 2(5) sublist_app_left by blast
  have nt: "\<not> sublist s (c # cs)" using 2(5) sublist_app_right by blast
  show ?case
  proof (cases "pat = []")
    case True
    have "\<not> sublist s ([c] @ cs)" using nt by simp
    with 2(1) [OF True 2(4)] have x: "\<not> sublist s ([c] @ replaceAll cs pat rep)" by blast
    have "\<not> sublist s (pre @ rep @ (c # replaceAll cs pat rep))"
      using overlaps_split [OF 2(4), of pre "c # replaceAll cs pat rep"] npre x by auto
    with True show ?thesis by simp
  next
    case False
    show ?thesis
    proof (cases "prefix pat (c # cs)")
      case True
      have "\<not> sublist s ([] @ drop (length pat) (c # cs))"
        using nt sublist_drop_app by fastforce
      with 2(2) [OF False True 2(4)]
      have x: "\<not> sublist s ([] @ replaceAll (drop (length pat) (c # cs)) pat rep)"
        by blast
      have "\<not> sublist s (pre @ rep @ replaceAll (drop (length pat) (c # cs)) pat rep)"
        using overlaps_split [OF 2(4), of pre "replaceAll (drop (length pat) (c # cs)) pat rep"]
          npre x by auto
      with True False show ?thesis by simp
    next
      case nf: False
      have "\<not> sublist s ((pre @ [c]) @ cs)" using 2(5) by simp
      with 2(3) [OF False nf 2(4)] have "\<not> sublist s ((pre @ [c]) @ replaceAll cs pat rep)"
        by blast
      with False nf show ?thesis by simp
    qed
  qed
qed

lemma regexReplace_keeps_absent:
  "\<not> overlaps s rep \<Longrightarrow> \<not> sublist s (pre @ t) \<Longrightarrow> \<not> sublist s (pre @ regexReplace m rep t)"
proof (induction m rep t arbitrary: pre rule: regexReplace.induct)
  case (1 m rep)
  have npre: "\<not> sublist s pre" using 1(2) by simp
  have "\<not> sublist s (pre @ rep @ [])"
    using overlaps_split [OF 1(1), of pre "[]"] npre overlaps_nonempty [OF 1(1)] by auto
  with npre show ?case by (simp split: option.splits)
next
  case (2 m rep c cs)
  have npre: "\<not> sublist s pre" using 2(5) sublist_app_left by blast
  have nt: "\<not> sublist s (c # cs)" using 2(5) sublist_app_right by blast
  show ?case
  proof (cases "m (c # cs)")
    case None
    have "\<not> sublist s ((pre @ [c]) @ cs)" using 2(5) by simp
    with 2(1) [OF None 2(4)] have "\<not> sublist s ((pre @ [c]) @ regexReplace m rep cs)" by blast
    with None show ?thesis by simp
  next
    case (Some n)
    show ?thesis
    proof (cases "n = 0")
      case True
      have "\<not> sublist s ([c] @ cs)" using nt by simp
      with 2(2) [OF Some True 2(4)] have x: "\<not> sublist s ([c] @ regexReplace m rep cs)" by blast
      have "\<not> sublist s (pre @ rep @ (c # regexReplace m rep cs))"
        using overlaps_split [OF 2(4), of pre "c # regexReplace m rep cs"] npre x by auto
      with Some True show ?thesis by simp
    next
      case False
      have "\<not> sublist s ([] @ drop n (c # cs))"
        using nt sublist_drop_app by fastforce
      with 2(3) [OF Some False 2(4)]
      have x: "\<not> sublist s ([] @ regexReplace m rep (drop n (c # cs)))" by blast
      have "\<not> sublist s (pre @ rep @ regexReplace m rep (drop n (c # cs)))"
        using overlaps_split [OF 2(4), of pre "regexReplace m rep (drop n (c # cs))"] npre x
        by auto
      with Some False show ?thesis by simp
    qed
  qed
qed

lemma replaceAll_removes:
  assumes "\<not> overlaps s rep"
    and "\<And>u v. pre = u @ v \<Longrightarrow> v \<noteq> [] \<Longrightarrow> \<not> prefix s (v @ t)"
  shows "\<not> sublist s (pre @ replaceAll t s rep)"
  using assms
proof (induction t s rep arbitrary: pre rule: replaceAll.induct)
  case (1 pat rep)
  have ne: "pat \<noteq> []" using 1(1) by (rule overlaps_nonempty)
  have "\<not> sublist pat pre"
  proof
    assume "sublist pat pre"
    then obtain u w where "pre = u @ pat @ w" by (auto simp: sublist_def)
    with 1(2) [of u "pat @ w"] ne show False by simp
  qed
  with ne show ?case by simp
next
  case (2 c cs pat rep)
  have ne: "pat \<noteq> []" using 2(4) by (rule overlaps_nonempty)
  have npre: "\<not> sublist pat pre"
  proof
    assume "sublist pat pre"
    then obtain u w where "pre = u @ pat @ w" by (auto simp: sublist_def)
    with 2(5) [of u "pat @ w"] ne show False by simp
  qed
  show ?case
  proof (cases "prefix pat (c # cs)")
    case True
    have x: "\<not> sublist pat ([] @ replaceAll (drop (length pat) (c # cs)) pat rep)"
      by (rule 2(2) [OF ne True 2(4)]) simp
    have "\<not> sublist pat (pre @ rep @ replaceAll (drop (length pat) (c # cs)) pat rep)"
      using overlaps_split [OF 2(4), of pre "replaceAll (drop (length pat) (c # cs)) pat rep"]
        npre x by auto
    with True ne show ?thesis by simp
  next
    case False
    have "\<not> sublist pat ((pre @ [c]) @ replaceAll cs pat rep)"
    proof (rule 2(3) [OF ne False 2(4)])
      fix u v
      assume uv: "pre @ [c] = u @ v" and v: "v \<noteq> []"
      then obtain v0 where v0: "v = v0 @ [c]" "pre = u @ v0"
        by (metis append_butlast_last_id butlast_append last_appendR butlast_snoc last_snoc)
      show "\<not> prefix pat (v @ cs)"
      proof (cases "v0 = []")
        case True
        with v0 False show ?thesis by simp
      next
        case nv: False
        from 2(5) [OF v0(2) nv] v0(1) show ?thesis by simp
      qed
    qed
    with False ne show ?thesis by simp
  qed
qed

lemma fold_keeps_absent:
  "\<not> overlaps s REDACTED \<Longrightarrow> \<not> sublist s t \<Longrightarrow>
   \<not> sublist s (fold (\<lambda>pattern sanitized. replaceAll sanitized pattern REDACTED) ps t)"
proof (induction ps arbitrary: t)
  case Nil
  then show ?case by simp
next
  case (Cons p ps)
  have "\<not> sublist s ([] @ replaceAll t p REDACTED)"
    by (rule replaceAll_keeps_absent [OF Cons(2)]) (simp add: Cons(3))
  then show ?case using Cons(1) [OF Cons(2)] by simp
qed

lemma fold_removes:
  "\<not> overlaps s REDACTED \<Longrightarrow> s \<in> set ps \<Longrightarrow>
   \<not> sublist s (fold (\<lambda>pattern sanitized. replaceAll sanitized pattern REDACTED) ps t)"
proof (induction ps arbitrary: t)
  case Nil
  then show ?case by simp
next
  case (Cons p ps)
  show ?case
  proof (cases "s = p")
    case True
    have "\<not> sublist s ([] @ replaceAll t s REDACTED)"
      by (rule replaceAll_removes [OF Cons(2)]) simp
    then show ?thesis using fold_keeps_absent [OF Cons(2)] True by simp
  next
    case False
    with Cons(3) have "s \<in> set ps" by simp
    from Cons(1) [OF Cons(2) this] show ?thesis by simp
  qed
qed

text \<open>
  C1, for the secrets it holds for. A registered string that overlaps none of the three
  inserted texts does not occur in any sanitized message.
\<close>

theorem sanitize_removes_marker_free_secret:
  assumes "s \<in> set patterns" and "markerFree s"
  shows "\<not> sublist s (sanitizeMessage patterns m)"
proof -
  let ?a = "fold (\<lambda>pattern sanitized. replaceAll sanitized pattern REDACTED) patterns m"
  let ?b = "regexReplace matchToken TOKEN_REDACTED ?a"
  from assms have o: "\<not> overlaps s REDACTED" "\<not> overlaps s TOKEN_REDACTED"
    "\<not> overlaps s AUTHORIZATION_REDACTED"
    by (simp_all add: markerFree_def)
  have a: "\<not> sublist s ([] @ ?a)" using fold_removes [OF o(1) assms(1)] by simp
  have b: "\<not> sublist s ([] @ ?b)" by (rule regexReplace_keeps_absent [OF o(2) a])
  have "\<not> sublist s ([] @ regexReplace matchAuthorization AUTHORIZATION_REDACTED ?b)"
    by (rule regexReplace_keeps_absent [OF o(3) b])
  then show ?thesis by (simp add: sanitizeMessage_def)
qed

theorem sanitize_removes_marker_free_secret_witness:
  "str ''s3cr3t'' \<in> set (registerAll [str ''root@pam!mcp'', str ''s3cr3t''])
   \<and> markerFree (str ''s3cr3t'')
   \<and> \<not> sublist (str ''s3cr3t'')
        (sanitizeMessage (registerAll [str ''root@pam!mcp'', str ''s3cr3t''])
           (str ''GET /nodes failed: s3cr3t refused''))"
proof -
  have r: "str ''s3cr3t'' \<in> set (registerAll [str ''root@pam!mcp'', str ''s3cr3t''])"
    by (simp add: registerAll_def registerSensitivePattern_def SENSITIVE_PATTERNS_def str_def)
  have f: "markerFree (str ''s3cr3t'')"
    by (simp add: markerFree_def overlaps_def string_eval suffix_to_prefix)
  show ?thesis
    using sanitize_removes_marker_free_secret [OF r f, of "str ''GET /nodes failed: s3cr3t refused''"]
      r f
    by simp
qed

text \<open>
  C1, as stated, fails for a registered string that lies inside the marker: the marker
  that replaces it brings it back.
\<close>

theorem secret_inside_marker_survives:
  "str ''RED'' \<in> set (registerAll [str ''RED''])
   \<and> sublist (str ''RED'') (str ''key RED'')
   \<and> sublist (str ''RED'') (sanitizeMessage (registerAll [str ''RED'']) (str ''key RED''))"
  by (simp add: registerAll_def registerSensitivePattern_def SENSITIVE_PATTERNS_def string_eval)

section \<open>The registry holds no empty string\<close>

lemma fold_register_keeps_nonempty:
  "[] \<notin> set acc \<Longrightarrow> [] \<notin> set (fold registerSensitivePattern ps acc)"
  by (induction ps arbitrary: acc) (auto simp: registerSensitivePattern_def)

text \<open>
  C10. After any sequence of calls of \<open>registerSensitivePattern\<close>, starting from the empty
  array, the registry holds no empty string, and registering the empty string changes
  nothing. So \<open>sanitizeMessage\<close> never searches for the empty string.
\<close>

theorem registry_holds_no_empty_string:
  "[] \<notin> set (registerAll ps) \<and> registerSensitivePattern [] patterns = patterns"
  using fold_register_keeps_nonempty [of SENSITIVE_PATTERNS ps]
  by (simp add: registerAll_def SENSITIVE_PATTERNS_def registerSensitivePattern_def)

section \<open>The registration filter\<close>



section \<open>The execution wrapper\<close>

text \<open>
  C3. When the handler of a registered tool throws an instance of \<open>Error\<close>, the callback
  registered for it returns (it does not throw) a result flagged as an error whose text is
  the sanitized message.
\<close>

theorem wrapper_returns_sanitized_failure:
  assumes "fst (registerTool server config options)"
    and "handler options a = Inl err"
    and "instanceofError err"
  shows "tool_callback (last (snd (registerTool server config options))) patterns a =
           Inr \<lparr>content = [TextContent (sanitizeMessage patterns (message err))],
                isError = Some True\<rparr>"
  using assms
  by (auto simp: registerTool_def Let_def wrappedHandler_def split: if_splits option.splits)

theorem wrapper_returns_sanitized_failure_witness:
  "fst (registerTool [] exampleConfig (exampleTool (\<lambda>a. Inl (OtherError (str ''bad s3cr3t'')))))
   \<and> handler (exampleTool (\<lambda>a. Inl (OtherError (str ''bad s3cr3t'')))) [] =
       Inl (OtherError (str ''bad s3cr3t''))
   \<and> instanceofError (OtherError (str ''bad s3cr3t''))
   \<and> tool_callback
       (last (snd (registerTool [] exampleConfig
          (exampleTool (\<lambda>a. Inl (OtherError (str ''bad s3cr3t'')))))))
       [str ''s3cr3t''] [] =
       Inr \<lparr>content = [TextContent (str ''bad [REDACTED]'')], isError = Some True\<rparr>"
proof -
  let ?t = "exampleTool (\<lambda>a. Inl (OtherError (str ''bad s3cr3t'')))"
  have adm: "fst (registerTool [] exampleConfig ?t)"
    by (simp add: registerTool_def exampleConfig_def exampleTool_def)
  have thr: "handler ?t [] = Inl (OtherError (str ''bad s3cr3t''))"
    by (simp add: exampleTool_def)
  have san: "sanitizeMessage [str ''s3cr3t''] (str ''bad s3cr3t'') = str ''bad [REDACTED]''"
    by (simp add: string_eval)
  show ?thesis
    using wrapper_returns_sanitized_failure [OF adm thr, of "[str ''s3cr3t'']"] adm thr san
    by simp
qed

text \<open>
  C9. When the handler of a registered tool throws a value that is not an instance of
  \<open>Error\<close>, the callback returns a result flagged as an error whose text is the fixed
  sentence: it depends neither on the thrown value nor on the registry.
\<close>

theorem wrapper_hides_non_error_values:
  assumes "fst (registerTool server config options)"
    and "handler options a = Inl err"
    and "\<not> instanceofError err"
  shows "tool_callback (last (snd (registerTool server config options))) patterns a =
           Inr \<lparr>content = [TextContent (str ''An unknown error occurred'')],
                isError = Some True\<rparr>"
  using assms
  by (auto simp: registerTool_def Let_def wrappedHandler_def split: if_splits option.splits)

theorem wrapper_hides_non_error_values_witness:
  "fst (registerTool [] exampleConfig (exampleTool (\<lambda>a. Inl (NonError (str ''s3cr3t'')))))
   \<and> handler (exampleTool (\<lambda>a. Inl (NonError (str ''s3cr3t'')))) [] =
       Inl (NonError (str ''s3cr3t''))
   \<and> \<not> instanceofError (NonError (str ''s3cr3t''))
   \<and> tool_callback
       (last (snd (registerTool [] exampleConfig
          (exampleTool (\<lambda>a. Inl (NonError (str ''s3cr3t'')))))))
       [] [] =
       Inr \<lparr>content = [TextContent (str ''An unknown error occurred'')], isError = Some True\<rparr>"
proof -
  let ?t = "exampleTool (\<lambda>a. Inl (NonError (str ''s3cr3t'')))"
  have adm: "fst (registerTool [] exampleConfig ?t)"
    by (simp add: registerTool_def exampleConfig_def exampleTool_def)
  have thr: "handler ?t [] = Inl (NonError (str ''s3cr3t''))"
    by (simp add: exampleTool_def)
  show ?thesis
    using wrapper_hides_non_error_values [OF adm thr, of "[]"] adm thr
    by simp
qed

section \<open>The request engine\<close>

lemma digits_403: "digits 403 = str ''403''"
  by (simp add: digits.simps str_def)

text \<open>
  C8. When a successful JSON response parses to an object with a \<open>data\<close> key, \<open>request\<close>
  returns the value under that key, whatever it is (\<open>null\<close> included), and nothing else of
  the object.
\<close>

theorem envelope_data_returned:
  assumes "fetch (requestInit client method path body) = Responds r"
    and "ok r"
    and "contentType r = Some ct"
    and "sublist (str ''json'') ct"
    and "bodyJson r = Inr (JObj kvs)"
    and "map_of kvs (str ''data'') = Some v"
  shows "request client patterns fetch method path body = Inr v"
  using assms by (simp add: request_def)

theorem envelope_data_returned_witness:
  "(\<lambda>c. Responds (jsonResponse (JObj [(str ''data'', JNull), (str ''extra'', JNum (str ''1''))])))
     (requestInit exampleClient (str ''GET'') (str ''/nodes'') None) =
     Responds (jsonResponse (JObj [(str ''data'', JNull), (str ''extra'', JNum (str ''1''))]))
   \<and> ok (jsonResponse (JObj [(str ''data'', JNull), (str ''extra'', JNum (str ''1''))]))
   \<and> contentType (jsonResponse (JObj [(str ''data'', JNull), (str ''extra'', JNum (str ''1''))]))
       = Some (str ''application/json'')
   \<and> sublist (str ''json'') (str ''application/json'')
   \<and> bodyJson (jsonResponse (JObj [(str ''data'', JNull), (str ''extra'', JNum (str ''1''))]))
       = Inr (JObj [(str ''data'', JNull), (str ''extra'', JNum (str ''1''))])
   \<and> map_of [(str ''data'', JNull), (str ''extra'', JNum (str ''1''))] (str ''data'') = Some JNull
   \<and> request exampleClient []
        (\<lambda>c. Responds (jsonResponse (JObj [(str ''data'', JNull), (str ''extra'', JNum (str ''1''))])))
        (str ''GET'') (str ''/nodes'') None = Inr JNull"
proof -
  let ?kvs = "[(str ''data'', JNull), (str ''extra'', JNum (str ''1''))]"
  let ?r = "jsonResponse (JObj ?kvs)"
  have okr: "ok ?r" by (simp add: ok_def jsonResponse_def)
  have ct: "contentType ?r = Some (str ''application/json'')" by (simp add: jsonResponse_def)
  have js: "sublist (str ''json'') (str ''application/json'')" by (simp add: string_eval)
  have bj: "bodyJson ?r = Inr (JObj ?kvs)" by (simp add: jsonResponse_def)
  have mo: "map_of ?kvs (str ''data'') = Some JNull" by simp
  show ?thesis
    using envelope_data_returned [of "\<lambda>c. Responds ?r" exampleClient "str ''GET''" "str ''/nodes''"
        None ?r "str ''application/json''" ?kvs JNull "[]", OF refl okr ct js bj mo]
      okr ct js bj mo
    by simp
qed

text \<open>
  C4 at the bare value \<open>null\<close>: a successful JSON response whose body is \<open>null\<close> is not
  returned unchanged. Reading \<open>data\<close> of \<open>null\<close> throws, and \<open>request\<close> fails with a
  \<open>PveError\<close> that carries the TypeError's message.
\<close>

theorem bare_null_body_fails:
  "request client patterns (\<lambda>c. Responds (jsonResponse JNull)) (str ''GET'') (str ''/nodes'') None =
     Inl (PveError (sanitizeMessage patterns (nullReadMessage (str ''data''))) None)"
  by (simp add: request_def requestCatch_def ok_def jsonResponse_def string_eval(1) sublist_code(3))

text \<open>
  The rest of C4 holds: every other bare value is returned unchanged, a body that is not
  JSON is returned as text, or as \<open>null\<close> when it is empty, and the four verbs are the same
  \<open>request\<close>.
\<close>

lemma bare_value_unchanged:
  assumes "fetch (requestInit client method path body) = Responds r"
    and "ok r"
    and "contentType r = Some ct"
    and "sublist (str ''json'') ct"
    and "bodyJson r = Inr v"
    and "v \<noteq> JNull"
    and "getProp v (str ''data'') = None"
  shows "request client patterns fetch method path body = Inr v"
  using assms by (cases v) (simp_all add: request_def)

lemma non_json_body_is_text_or_null:
  assumes "fetch (requestInit client method path body) = Responds r"
    and "ok r"
    and "\<not> sublist (str ''json'') (case contentType r of None \<Rightarrow> [] | Some h \<Rightarrow> h)"
    and "bodyText r = Inr t"
  shows "request client patterns fetch method path body = Inr (if t = [] then JNull else JStr t)"
  using assms by (simp add: request_def)

lemma verbs_share_request:
  "get client patterns fetch path = request client patterns fetch (str ''GET'') path None"
  "post client patterns fetch path body = request client patterns fetch (str ''POST'') path body"
  "put client patterns fetch path body = request client patterns fetch (str ''PUT'') path body"
  "delete client patterns fetch path = request client patterns fetch (str ''DELETE'') path None"
  by (simp_all add: get_def post_def put_def delete_def)

text \<open>
  C6. A call whose \<open>fetch\<close> is aborted by the timeout and a call whose \<open>fetch\<close> fails on
  the network end the same way: a \<open>PveError\<close> with the sanitized message and no status
  code. The timeout handed to \<open>fetch\<close> is 30000 milliseconds.
\<close>

theorem timeout_and_network_failure_same_kind:
  assumes "fetch (requestInit client method path body) = TimesOut m"
    and "fetch' (requestInit client method path body) = NetworkFails m'"
  shows "request client patterns fetch method path body =
           Inl (PveError (sanitizeMessage patterns m) None)
       \<and> request client patterns fetch' method path body =
           Inl (PveError (sanitizeMessage patterns m') None)
       \<and> signal_timeout (requestInit client method path body) = 30000"
  using assms by (simp add: request_def requestCatch_def requestInit_def REQUEST_TIMEOUT_MS_def)

theorem timeout_and_network_failure_same_kind_witness:
  "(\<lambda>c. TimesOut (str ''The operation was aborted due to timeout''))
     (requestInit exampleClient (str ''GET'') (str ''/nodes'') None) =
     TimesOut (str ''The operation was aborted due to timeout'')
   \<and> (\<lambda>c. NetworkFails (str ''fetch failed''))
     (requestInit exampleClient (str ''GET'') (str ''/nodes'') None) =
     NetworkFails (str ''fetch failed'')
   \<and> request exampleClient [] (\<lambda>c. TimesOut (str ''The operation was aborted due to timeout''))
       (str ''GET'') (str ''/nodes'') None =
       Inl (PveError (str ''The operation was aborted due to timeout'') None)
   \<and> request exampleClient [] (\<lambda>c. NetworkFails (str ''fetch failed''))
       (str ''GET'') (str ''/nodes'') None =
       Inl (PveError (str ''fetch failed'') None)"
proof -
  have s1: "sanitizeMessage [] (str ''The operation was aborted due to timeout'') =
      str ''The operation was aborted due to timeout''"
    by (simp add: string_eval)
  have s2: "sanitizeMessage [] (str ''fetch failed'') = str ''fetch failed''"
    by (simp add: string_eval)
  show ?thesis
    using timeout_and_network_failure_same_kind
      [of "\<lambda>c. TimesOut (str ''The operation was aborted due to timeout'')" exampleClient
        "str ''GET''" "str ''/nodes''" None "str ''The operation was aborted due to timeout''"
        "\<lambda>c. NetworkFails (str ''fetch failed'')" "str ''fetch failed''" "[]", OF refl refl]
      s1 s2
    by simp
qed

text \<open>
  C5, as stated, fails: the message of a 403 failure of \<open>request\<close> is the status line, and
  does not mention authentication.
\<close>

theorem forbidden_message_is_generic:
  "request exampleClient [] (\<lambda>c. Responds forbidden) (str ''GET'') (str ''/nodes'') None =
     Inl (PveError (str ''GET /nodes failed: 403 Forbidden'') (Some 403))
   \<and> \<not> mentionsAuthentication (str ''GET /nodes failed: 403 Forbidden'')"
proof -
  have d: "errorDetail forbidden = str ''403 Forbidden''"
    by (simp add: errorDetail_def forbidden_def digits_403 str_def)
  have s: "sanitizeMessage [] (str ''GET /nodes failed: 403 Forbidden'') =
      str ''GET /nodes failed: 403 Forbidden''"
    by (simp add: string_eval)
  have m: "str ''GET'' @ str '' '' @ str ''/nodes'' @ str '' failed: '' @ str ''403 Forbidden'' =
      str ''GET /nodes failed: 403 Forbidden''"
    by (simp add: str_def)
  have r: "request exampleClient [] (\<lambda>c. Responds forbidden) (str ''GET'') (str ''/nodes'') None =
     Inl (PveError (str ''GET /nodes failed: 403 Forbidden'') (Some 403))"
    unfolding request_def requestCatch_def
    by (simp add: d m s) (simp add: ok_def forbidden_def)
  have n: "\<not> mentionsAuthentication (str ''GET /nodes failed: 403 Forbidden'')"
    by (simp add: mentionsAuthentication_def string_eval)
  show ?thesis using r n by simp
qed


end
